theory Spec2Isabelle
  imports Main "HOL-Library.Word" "HOL-Library.Sublist"
begin

section \<open>Machine types\<close>

text \<open>
  The target is a 64-bit Jetson board: \<open>size_t\<close> is an unsigned 64-bit integer, \<open>int\<close>
  a 32-bit one (read as two's complement with \<open>sint\<close>), a pointer is a 64-bit address.
  The wrapper never computes with a \<open>float\<close>; it is carried around as its 32-bit pattern.
\<close>

type_synonym size_t = "64 word"
type_synonym c_int = "32 word"
type_synonym ptr = "64 word"
type_synonym float = "32 word"
type_synonym float3 = "float \<times> float \<times> float"

definition sizeof_float :: size_t where
  "sizeof_float = 4"

definition sizeof_float4 :: size_t where
  "sizeof_float4 = 16"

text \<open>
  The implicit conversion C++ applies where a \<open>size_t\<close> is stored into an \<open>int\<close>:
  the low 32 bits are kept.
\<close>

definition size_t_to_int :: "size_t \<Rightarrow> c_int" where
  "size_t_to_int n = ucast n"

section \<open>Types of the TensorRT interface\<close>

text \<open>
  \<open>nvinfer1::DataType\<close>: the precision of the network. The wrapper only passes it on.
\<close>

datatype DataType = kFLOAT | kHALF | kINT8

text \<open>
  \<open>nvinfer1::Dims\<close>: the number of dimensions and the extents, which are \<open>int\<close>s.
  The list \<open>d\<close> holds the entries that have been written; the remaining entries of the
  fixed-size array are indeterminate and are not represented.
\<close>

record Dims =
  nbDims :: c_int
  d :: "c_int list"

definition DimsCHW :: "c_int \<Rightarrow> c_int \<Rightarrow> c_int \<Rightarrow> Dims" where
  "DimsCHW channels height width = \<lparr>nbDims = 3, d = [channels, height, width]\<rparr>"

datatype MemoryLocation = HOST | DEVICE | MAPPED

text \<open>
  \<open>LocatedExecutionMemory\<close>: where the buffers live, and the buffers themselves, indexed
  by \<open>[batchIndex][inputIndex]\<close>.
\<close>

record LocatedExecutionMemory =
  location :: MemoryLocation
  batch :: "ptr list list"

section \<open>Exceptions and calls into the runtime\<close>

text \<open>
  \<open>ModelDeserializeException\<close> is the one exception class the sources name; any other
  exception is \<open>OtherException\<close> with a tag.
\<close>

datatype rt_exception = ModelDeserializeException | OtherException nat

text \<open>
  A run fails either because an exception leaves the function, or because a vector is
  indexed out of its range, which C++ leaves undefined.
\<close>

datatype failure = Thrown rt_exception | IndexOutOfRange

text \<open>
  The calls the wrapper makes into the engine base class, the preprocessor and the
  runtime, with their arguments. A run records them in the order they are made.
\<close>

datatype call =
    AddInputCall string Dims size_t
  | AddOutputCall string Dims size_t
  | LoadCacheCall string size_t
  | LoadModelCall string string size_t DataType size_t
  | SaveCacheCall string
  | NewImageNetPreprocessorCall float3
  | InputFromHostCall ptr ptr size_t
  | RBGAtoBGRCall ptr size_t size_t size_t size_t
  | PredictCall LocatedExecutionMemory bool

text \<open>
  What the called functions do is outside the wrapper. Their behaviour is a parameter:
  for each call, either the exception it throws (\<open>Inl\<close>) or the value it returns.
  Within one run of the constructor or of \<open>classifyRBGA\<close> every function is called at
  most once, so a function of the arguments covers every behaviour.
\<close>

record externals =
  addInput_x :: "string \<Rightarrow> Dims \<Rightarrow> size_t \<Rightarrow> rt_exception + unit"
  addOutput_x :: "string \<Rightarrow> Dims \<Rightarrow> size_t \<Rightarrow> rt_exception + unit"
  loadCache_x :: "string \<Rightarrow> size_t \<Rightarrow> rt_exception + unit"
  loadModel_x :: "string \<Rightarrow> string \<Rightarrow> size_t \<Rightarrow> DataType \<Rightarrow> size_t \<Rightarrow> rt_exception + unit"
  saveCache_x :: "string \<Rightarrow> rt_exception + unit"
  newImageNetPreprocessor_x :: "float3 \<Rightarrow> rt_exception + ptr"
  inputFromHost_x :: "ptr \<Rightarrow> ptr \<Rightarrow> size_t \<Rightarrow> rt_exception + unit"
  RBGAtoBGR_x :: "ptr \<Rightarrow> size_t \<Rightarrow> size_t \<Rightarrow> size_t \<Rightarrow> size_t \<Rightarrow> rt_exception + ptr"
  predict_x :: "LocatedExecutionMemory \<Rightarrow> bool \<Rightarrow> rt_exception + LocatedExecutionMemory"

subsection \<open>Runs\<close>

text \<open>
  A run takes the calls made so far and returns them extended, with a failure or a value.
\<close>

type_synonym 'a run = "call list \<Rightarrow> call list \<times> (failure + 'a)"

definition ret :: "'a \<Rightarrow> 'a run" where
  "ret x tr = (tr, Inr x)"

definition fail :: "failure \<Rightarrow> 'a run" where
  "fail e tr = (tr, Inl e)"

definition bnd :: "'a run \<Rightarrow> ('a \<Rightarrow> 'b run) \<Rightarrow> 'b run" where
  "bnd m f tr = (case m tr of (tr', Inl e) \<Rightarrow> (tr', Inl e) | (tr', Inr x) \<Rightarrow> f x tr')"

definition seq :: "unit run \<Rightarrow> 'b run \<Rightarrow> 'b run" where
  "seq m n = bnd m (\<lambda>_. n)"

definition extern :: "call \<Rightarrow> rt_exception + 'a \<Rightarrow> 'a run" where
  "extern c outcome tr =
     (tr @ [c], case outcome of Inl e \<Rightarrow> Inl (Thrown e) | Inr x \<Rightarrow> Inr x)"

text \<open>
  \<open>try { m } catch (ModelDeserializeException& e) { h }\<close>: the handler runs exactly when
  that exception leaves \<open>m\<close>; anything else passes through.
\<close>

definition try_catch_ModelDeserialize :: "'a run \<Rightarrow> 'a run \<Rightarrow> 'a run" where
  "try_catch_ModelDeserialize m h tr =
     (case m tr of
        (tr', Inl (Thrown ModelDeserializeException)) \<Rightarrow> h tr'
      | r \<Rightarrow> r)"

section \<open>DIGITSClassifier\<close>

definition INPUT_NAME :: string where
  "INPUT_NAME = ''data''"

definition OUTPUT_NAME :: string where
  "OUTPUT_NAME = ''prob''"

record DIGITSClassifier =
  modelWidth :: size_t
  modelHeight :: size_t
  modelDepth :: size_t
  preprocessor :: ptr

text \<open>
  The member functions of the base classes and of the preprocessor, as calls. A method of
  the preprocessor takes the object it is called on as \<open>this\<close>.
\<close>

definition addInput :: "externals \<Rightarrow> string \<Rightarrow> Dims \<Rightarrow> size_t \<Rightarrow> unit run" where
  "addInput env layerName dims eleSize =
     extern (AddInputCall layerName dims eleSize) (addInput_x env layerName dims eleSize)"

definition addOutput :: "externals \<Rightarrow> string \<Rightarrow> Dims \<Rightarrow> size_t \<Rightarrow> unit run" where
  "addOutput env layerName dims eleSize =
     extern (AddOutputCall layerName dims eleSize) (addOutput_x env layerName dims eleSize)"

text \<open>\<open>loadCache\<close> declares \<open>maxBatchSize = 1\<close> as the default of its second parameter.\<close>

definition loadCache :: "externals \<Rightarrow> string \<Rightarrow> size_t \<Rightarrow> unit run" where
  "loadCache env cachePath maxBatchSize =
     extern (LoadCacheCall cachePath maxBatchSize) (loadCache_x env cachePath maxBatchSize)"

definition loadModel ::
  "externals \<Rightarrow> string \<Rightarrow> string \<Rightarrow> size_t \<Rightarrow> DataType \<Rightarrow> size_t \<Rightarrow> unit run" where
  "loadModel env prototextPath modelPath maximumBatchSize dataType maxNetworkSize =
     extern (LoadModelCall prototextPath modelPath maximumBatchSize dataType maxNetworkSize)
       (loadModel_x env prototextPath modelPath maximumBatchSize dataType maxNetworkSize)"

definition saveCache :: "externals \<Rightarrow> string \<Rightarrow> unit run" where
  "saveCache env cachePath = extern (SaveCacheCall cachePath) (saveCache_x env cachePath)"

definition newImageNetPreprocessor :: "externals \<Rightarrow> float3 \<Rightarrow> ptr run" where
  "newImageNetPreprocessor env mean =
     extern (NewImageNetPreprocessorCall mean) (newImageNetPreprocessor_x env mean)"

definition inputFromHost :: "externals \<Rightarrow> ptr \<Rightarrow> ptr \<Rightarrow> size_t \<Rightarrow> unit run" where
  "inputFromHost env this hostMemory nbytes =
     extern (InputFromHostCall this hostMemory nbytes) (inputFromHost_x env this hostMemory nbytes)"

definition RBGAtoBGR ::
  "externals \<Rightarrow> ptr \<Rightarrow> size_t \<Rightarrow> size_t \<Rightarrow> size_t \<Rightarrow> size_t \<Rightarrow> ptr run" where
  "RBGAtoBGR env this inputWidth inputHeight outputWidth outputHeight =
     extern (RBGAtoBGRCall this inputWidth inputHeight outputWidth outputHeight)
       (RBGAtoBGR_x env this inputWidth inputHeight outputWidth outputHeight)"

definition predict :: "externals \<Rightarrow> LocatedExecutionMemory \<Rightarrow> bool \<Rightarrow> LocatedExecutionMemory run" where
  "predict env inputs copyOutputToHost =
     extern (PredictCall inputs copyOutputToHost) (predict_x env inputs copyOutputToHost)"

subsection \<open>The constructor\<close>

text \<open>
  The body of the constructor. The base class \<open>CaffeRTEngine\<close> is constructed before the
  body is entered; the calls recorded are those of the body.
\<close>

definition DIGITSClassifier_body ::
  "externals \<Rightarrow> string \<Rightarrow> string \<Rightarrow> string \<Rightarrow> size_t \<Rightarrow> size_t \<Rightarrow> size_t \<Rightarrow> size_t \<Rightarrow> size_t
     \<Rightarrow> float3 \<Rightarrow> DataType \<Rightarrow> size_t \<Rightarrow> DIGITSClassifier run" where
  "DIGITSClassifier_body env prototextPath modelPath cachePath nbChannels width height
       nbClasses maximumBatchSize imageNetMean dataType maxNetworkSize =
     seq (addInput env INPUT_NAME
            (DimsCHW (size_t_to_int nbChannels) (size_t_to_int height) (size_t_to_int width))
            sizeof_float)
    (seq (addOutput env OUTPUT_NAME \<lparr>nbDims = 1, d = [size_t_to_int nbClasses]\<rparr> sizeof_float)
    (seq (try_catch_ModelDeserialize
            (loadCache env cachePath 1)
            (seq (loadModel env prototextPath modelPath maximumBatchSize dataType maxNetworkSize)
                 (saveCache env cachePath)))
    (bnd (newImageNetPreprocessor env imageNetMean) (\<lambda>p.
       ret \<lparr>modelWidth = width, modelHeight = height, modelDepth = nbChannels,
            preprocessor = p\<rparr>))))"

text \<open>A construction is a run of the body from the empty list of calls.\<close>

definition DIGITSClassifier_new ::
  "externals \<Rightarrow> string \<Rightarrow> string \<Rightarrow> string \<Rightarrow> size_t \<Rightarrow> size_t \<Rightarrow> size_t \<Rightarrow> size_t \<Rightarrow> size_t
     \<Rightarrow> float3 \<Rightarrow> DataType \<Rightarrow> size_t \<Rightarrow> call list \<times> (failure + DIGITSClassifier)" where
  "DIGITSClassifier_new env prototextPath modelPath cachePath nbChannels width height
       nbClasses maximumBatchSize imageNetMean dataType maxNetworkSize =
     DIGITSClassifier_body env prototextPath modelPath cachePath nbChannels width height
       nbClasses maximumBatchSize imageNetMean dataType maxNetworkSize []"

subsection \<open>classifyRBGA\<close>

text \<open>
  \<open>memory[b][i]\<close> on a \<open>LocatedExecutionMemory\<close>; outside the vectors' ranges the C++
  is undefined, which the model reports.
\<close>

definition at_index :: "LocatedExecutionMemory \<Rightarrow> nat \<Rightarrow> nat \<Rightarrow> ptr run" where
  "at_index mem b i =
     (if b < length (batch mem) \<and> i < length (batch mem ! b)
      then ret (batch mem ! b ! i) else fail IndexOutOfRange)"

definition classifyRBGA_body ::
  "externals \<Rightarrow> DIGITSClassifier \<Rightarrow> ptr \<Rightarrow> size_t \<Rightarrow> size_t \<Rightarrow> ptr run" where
  "classifyRBGA_body env self rbga width height =
     seq (inputFromHost env (preprocessor self) rbga (width * height * sizeof_float4))
    (bnd (RBGAtoBGR env (preprocessor self) width height (modelWidth self) (modelHeight self))
       (\<lambda>preprocessedImageDevice.
     let batchInputs = replicate 1 [];
         batchInputs = batchInputs[0 := batchInputs ! 0 @ [preprocessedImageDevice]];
         predictionInputs = \<lparr>location = DEVICE, batch = batchInputs\<rparr>
     in bnd (predict env predictionInputs True) (\<lambda>predictionOutputs.
        at_index predictionOutputs 0 0)))"

text \<open>
  A call of the method: the calls it makes, the pointer it returns or its failure, and
  the object after the call. The body assigns no member, so the object is the one the
  method was called on, whatever the outcome.
\<close>

definition classifyRBGA ::
  "externals \<Rightarrow> DIGITSClassifier \<Rightarrow> ptr \<Rightarrow> size_t \<Rightarrow> size_t
     \<Rightarrow> call list \<times> (failure + ptr) \<times> DIGITSClassifier" where
  "classifyRBGA env self rbga width height =
     (case classifyRBGA_body env self rbga width height [] of (tr, r) \<Rightarrow> (tr, r, self))"

subsection \<open>Kinds of calls\<close>

fun is_binding :: "call \<Rightarrow> bool" where
  "is_binding (AddInputCall _ _ _) = True"
| "is_binding (AddOutputCall _ _ _) = True"
| "is_binding _ = False"

fun is_engine_call :: "call \<Rightarrow> bool" where
  "is_engine_call (LoadCacheCall _ _) = True"
| "is_engine_call (LoadModelCall _ _ _ _ _) = True"
| "is_engine_call (SaveCacheCall _) = True"
| "is_engine_call _ = False"

fun is_LoadModel :: "call \<Rightarrow> bool" where
  "is_LoadModel (LoadModelCall _ _ _ _ _) = True"
| "is_LoadModel _ = False"


subsection \<open>Two runtimes and an object to run the wrapper on\<close>

text \<open>
  \<open>cached_runtime\<close>: every call returns, so the cache file is there and loads.
  \<open>fresh_runtime\<close>: the same, but \<open>loadCache\<close> throws \<open>ModelDeserializeException\<close>,
  as it does when no usable cache file exists.
\<close>

definition cached_runtime :: externals where
  "cached_runtime =
     \<lparr>addInput_x = (\<lambda>_ _ _. Inr ()),
      addOutput_x = (\<lambda>_ _ _. Inr ()),
      loadCache_x = (\<lambda>_ _. Inr ()),
      loadModel_x = (\<lambda>_ _ _ _ _. Inr ()),
      saveCache_x = (\<lambda>_. Inr ()),
      newImageNetPreprocessor_x = (\<lambda>_. Inr 4096),
      inputFromHost_x = (\<lambda>_ _ _. Inr ()),
      RBGAtoBGR_x = (\<lambda>_ _ _ _ _. Inr 8192),
      predict_x = (\<lambda>inputs _. Inr \<lparr>location = HOST, batch = map (\<lambda>_. [12288]) (batch inputs)\<rparr>)\<rparr>"

definition fresh_runtime :: externals where
  "fresh_runtime = cached_runtime\<lparr>loadCache_x := (\<lambda>_ _. Inl ModelDeserializeException)\<rparr>"

definition a_classifier :: DIGITSClassifier where
  "a_classifier = \<lparr>modelWidth = 224, modelHeight = 224, modelDepth = 3, preprocessor = 4096\<rparr>"

section \<open>Properties\<close>

lemmas run_monad_defs = ret_def fail_def bnd_def seq_def extern_def try_catch_ModelDeserialize_def

lemmas member_defs = addInput_def addOutput_def loadCache_def loadModel_def saveCache_def
  newImageNetPreprocessor_def inputFromHost_def RBGAtoBGR_def predict_def

subsection \<open>The conversion into \<open>Dims\<close>\<close>

text \<open>
  Below \<open>2 ^ 31\<close> the conversion keeps the value; from there on the \<open>int\<close> stored in
  \<open>Dims\<close> is the argument modulo \<open>2 ^ 32\<close>, read as two's complement.
\<close>

lemma size_t_to_int_exact:
  assumes "n < 2 ^ 31"
  shows "sint (size_t_to_int n) = uint n"
proof -
  from assms have bound: "uint n < 2 ^ 31"
    by (simp add: word_less_alt)
  have "sint (size_t_to_int n) = signed_take_bit (LENGTH(32) - 1) (uint n)"
    unfolding size_t_to_int_def ucast_eq by (rule sint_sbintrunc')
  also have "\<dots> = signed_take_bit 31 (uint n)"
    by simp
  also have "\<dots> = uint n"
  proof (rule signed_take_bit_int_eq_self)
    have "- (2 ^ 31) \<le> (0::int)" by simp
    also have "0 \<le> uint n" by simp
    finally show "- (2 ^ 31) \<le> uint n" .
    show "uint n < 2 ^ 31" by (rule bound)
  qed
  finally show ?thesis .
qed

subsection \<open>The runs of the constructor and of \<open>classifyRBGA\<close>, call by call\<close>

text \<open>
  The constructor unfolded: which calls are made and what is returned, by the outcome of
  each call.
\<close>

lemma new_unfold:
  "DIGITSClassifier_new env pp mp cp nc w h ncl mbs mean dt mns =
     (let ai = AddInputCall ''data'' \<lparr>nbDims = 3, d = [size_t_to_int nc, size_t_to_int h, size_t_to_int w]\<rparr> 4;
          ao = AddOutputCall ''prob'' \<lparr>nbDims = 1, d = [size_t_to_int ncl]\<rparr> 4;
          lc = LoadCacheCall cp 1;
          lm = LoadModelCall pp mp mbs dt mns;
          sc = SaveCacheCall cp;
          np = NewImageNetPreprocessorCall mean;
          fin = (\<lambda>tr. case newImageNetPreprocessor_x env mean of
                   Inl e \<Rightarrow> (tr @ [np], Inl (Thrown e))
                 | Inr p \<Rightarrow> (tr @ [np], Inr \<lparr>modelWidth = w, modelHeight = h, modelDepth = nc, preprocessor = p\<rparr>))
      in case addInput_x env ''data'' \<lparr>nbDims = 3, d = [size_t_to_int nc, size_t_to_int h, size_t_to_int w]\<rparr> 4 of
           Inl e \<Rightarrow> ([ai], Inl (Thrown e))
         | Inr _ \<Rightarrow>
        (case addOutput_x env ''prob'' \<lparr>nbDims = 1, d = [size_t_to_int ncl]\<rparr> 4 of
           Inl e \<Rightarrow> ([ai, ao], Inl (Thrown e))
         | Inr _ \<Rightarrow>
        (case loadCache_x env cp 1 of
           Inr _ \<Rightarrow> fin [ai, ao, lc]
         | Inl ModelDeserializeException \<Rightarrow>
             (case loadModel_x env pp mp mbs dt mns of
                Inl e \<Rightarrow> ([ai, ao, lc, lm], Inl (Thrown e))
              | Inr _ \<Rightarrow>
                (case saveCache_x env cp of
                   Inl e \<Rightarrow> ([ai, ao, lc, lm, sc], Inl (Thrown e))
                 | Inr _ \<Rightarrow> fin [ai, ao, lc, lm, sc]))
         | Inl (OtherException n) \<Rightarrow> ([ai, ao, lc], Inl (Thrown (OtherException n))))))"
  by (simp add: DIGITSClassifier_new_def DIGITSClassifier_body_def run_monad_defs member_defs
      INPUT_NAME_def OUTPUT_NAME_def DimsCHW_def sizeof_float_def Let_def
      split: sum.splits rt_exception.splits)

lemma classify_unfold:
  "classifyRBGA env self rbga w h =
     (let ifh = InputFromHostCall (preprocessor self) rbga (w * h * 16);
          r2b = RBGAtoBGRCall (preprocessor self) w h (modelWidth self) (modelHeight self)
      in case inputFromHost_x env (preprocessor self) rbga (w * h * 16) of
           Inl e \<Rightarrow> ([ifh], Inl (Thrown e), self)
         | Inr _ \<Rightarrow>
        (case RBGAtoBGR_x env (preprocessor self) w h (modelWidth self) (modelHeight self) of
           Inl e \<Rightarrow> ([ifh, r2b], Inl (Thrown e), self)
         | Inr p \<Rightarrow>
        (case predict_x env \<lparr>location = DEVICE, batch = [[p]]\<rparr> True of
           Inl e \<Rightarrow> ([ifh, r2b, PredictCall \<lparr>location = DEVICE, batch = [[p]]\<rparr> True],
                     Inl (Thrown e), self)
         | Inr outs \<Rightarrow>
             ([ifh, r2b, PredictCall \<lparr>location = DEVICE, batch = [[p]]\<rparr> True],
              (if 0 < length (batch outs) \<and> 0 < length (batch outs ! 0)
               then Inr (batch outs ! 0 ! 0) else Inl IndexOutOfRange),
              self))))"
  by (simp add: classifyRBGA_def classifyRBGA_body_def run_monad_defs member_defs at_index_def
      sizeof_float4_def Let_def split: sum.splits)

text \<open>
  The seven ways a construction can go, as a case rule: a binding throws, the cache load
  throws something else than \<open>ModelDeserializeException\<close>, the cache loads, the build or
  the save throws, or the model is built and saved.
\<close>

lemma new_cases:
  fixes env pp mp cp nc w h ncl mbs mean dt mns
  defines "run \<equiv> DIGITSClassifier_new env pp mp cp nc w h ncl mbs mean dt mns"
    and "chw \<equiv> \<lparr>nbDims = 3, d = [size_t_to_int nc, size_t_to_int h, size_t_to_int w]\<rparr>"
    and "classes \<equiv> \<lparr>nbDims = 1, d = [size_t_to_int ncl]\<rparr>"
    and "load \<equiv> LoadCacheCall cp 1"
    and "build \<equiv> LoadModelCall pp mp mbs dt mns"
    and "save \<equiv> SaveCacheCall cp"
    and "pre \<equiv> NewImageNetPreprocessorCall mean"
  obtains
    (input_throws) e where
      "run = ([AddInputCall ''data'' chw 4], Inl (Thrown e))"
      "addInput_x env ''data'' chw 4 = Inl e"
  | (output_throws) e where
      "run = ([AddInputCall ''data'' chw 4, AddOutputCall ''prob'' classes 4], Inl (Thrown e))"
      "addInput_x env ''data'' chw 4 = Inr ()"
  | (cache_throws) n where
      "run = ([AddInputCall ''data'' chw 4, AddOutputCall ''prob'' classes 4, load],
              Inl (Thrown (OtherException n)))"
      "addInput_x env ''data'' chw 4 = Inr ()"
      "loadCache_x env cp 1 = Inl (OtherException n)"
  | (cache_hit) r where
      "run = ([AddInputCall ''data'' chw 4, AddOutputCall ''prob'' classes 4, load, pre], r)"
      "addInput_x env ''data'' chw 4 = Inr ()"
      "loadCache_x env cp 1 = Inr ()"
      "\<And>c. r = Inr c \<Longrightarrow> modelWidth c = w \<and> modelHeight c = h \<and> modelDepth c = nc"
  | (build_throws) e where
      "run = ([AddInputCall ''data'' chw 4, AddOutputCall ''prob'' classes 4, load, build],
              Inl (Thrown e))"
      "addInput_x env ''data'' chw 4 = Inr ()"
      "loadCache_x env cp 1 = Inl ModelDeserializeException"
      "loadModel_x env pp mp mbs dt mns = Inl e"
  | (save_throws) e where
      "run = ([AddInputCall ''data'' chw 4, AddOutputCall ''prob'' classes 4, load, build, save],
              Inl (Thrown e))"
      "addInput_x env ''data'' chw 4 = Inr ()"
      "loadCache_x env cp 1 = Inl ModelDeserializeException"
      "loadModel_x env pp mp mbs dt mns = Inr ()"
  | (cache_miss) r where
      "run = ([AddInputCall ''data'' chw 4, AddOutputCall ''prob'' classes 4, load, build, save,
               pre], r)"
      "addInput_x env ''data'' chw 4 = Inr ()"
      "loadCache_x env cp 1 = Inl ModelDeserializeException"
      "loadModel_x env pp mp mbs dt mns = Inr ()"
      "\<And>c. r = Inr c \<Longrightarrow> modelWidth c = w \<and> modelHeight c = h \<and> modelDepth c = nc"
proof -
  note defs = run_def chw_def classes_def load_def build_def save_def pre_def new_unfold
  let ?made = "case newImageNetPreprocessor_x env mean of
      Inl e \<Rightarrow> Inl (Thrown e)
    | Inr p \<Rightarrow> Inr \<lparr>modelWidth = w, modelHeight = h, modelDepth = nc, preprocessor = p\<rparr>"
  show thesis
  proof (cases "addInput_x env ''data'' chw 4")
    case (Inl e)
    then show thesis
      by (intro input_throws [of e]) (simp_all add: defs)
  next
    case bound_in: (Inr u1)
    show thesis
    proof (cases "addOutput_x env ''prob'' classes 4")
      case (Inl e)
      with bound_in show thesis
        by (intro output_throws [of e]) (simp_all add: defs)
    next
      case bound_out: (Inr u2)
      show thesis
      proof (cases "loadCache_x env cp 1")
        case (Inr u3)
        with bound_in bound_out show thesis
          by (intro cache_hit [of ?made]) (auto simp add: defs split: sum.splits)
      next
        case (Inl x)
        show thesis
        proof (cases x)
          case (OtherException n)
          with bound_in bound_out Inl show thesis
            by (intro cache_throws [of n]) (simp_all add: defs)
        next
          case ModelDeserializeException
          with Inl have missed: "loadCache_x env cp 1 = Inl ModelDeserializeException"
            by simp
          show thesis
          proof (cases "loadModel_x env pp mp mbs dt mns")
            case (Inl e)
            with bound_in bound_out missed show thesis
              by (intro build_throws [of e]) (simp_all add: defs)
          next
            case built: (Inr u4)
            show thesis
            proof (cases "saveCache_x env cp")
              case (Inl e)
              with bound_in bound_out missed built show thesis
                by (intro save_throws [of e]) (simp_all add: defs)
            next
              case (Inr u5)
              with bound_in bound_out missed built show thesis
                by (intro cache_miss [of ?made]) (auto simp add: defs split: sum.splits)
            qed
          qed
        qed
      qed
    qed
  qed
qed

text \<open>
  The four ways a classification can go: staging, conversion or inference throws, or
  inference returns.
\<close>

lemma classify_cases:
  fixes env self rbga w h
  defines "run \<equiv> classifyRBGA env self rbga w h"
    and "stage \<equiv> InputFromHostCall (preprocessor self) rbga (w * h * 16)"
    and "convert \<equiv> RBGAtoBGRCall (preprocessor self) w h (modelWidth self) (modelHeight self)"
    and "staged \<equiv> inputFromHost_x env (preprocessor self) rbga (w * h * 16)"
    and "converted \<equiv>
           RBGAtoBGR_x env (preprocessor self) w h (modelWidth self) (modelHeight self)"
  obtains
    (stage_throws) e where
      "run = ([stage], Inl (Thrown e), self)"
      "staged = Inl e"
  | (convert_throws) e where
      "run = ([stage, convert], Inl (Thrown e), self)"
      "staged = Inr ()"
      "converted = Inl e"
  | (predict_throws) p e where
      "run = ([stage, convert, PredictCall \<lparr>location = DEVICE, batch = [[p]]\<rparr> True],
              Inl (Thrown e), self)"
      "staged = Inr ()"
      "converted = Inr p"
      "predict_x env \<lparr>location = DEVICE, batch = [[p]]\<rparr> True = Inl e"
  | (predict_returns) p outs where
      "run = ([stage, convert, PredictCall \<lparr>location = DEVICE, batch = [[p]]\<rparr> True],
              (if 0 < length (batch outs) \<and> 0 < length (batch outs ! 0)
               then Inr (batch outs ! 0 ! 0) else Inl IndexOutOfRange), self)"
      "staged = Inr ()"
      "converted = Inr p"
      "predict_x env \<lparr>location = DEVICE, batch = [[p]]\<rparr> True = Inr outs"
proof -
  note defs = run_def stage_def convert_def staged_def converted_def classify_unfold
  show thesis
  proof (cases staged)
    case (Inl e)
    then show thesis
      by (intro stage_throws [of e]) (simp_all add: defs)
  next
    case on_device: (Inr u1)
    show thesis
    proof (cases converted)
      case (Inl e)
      with on_device show thesis
        by (intro convert_throws [of e]) (simp_all add: defs)
    next
      case bgr: (Inr p)
      show thesis
      proof (cases "predict_x env \<lparr>location = DEVICE, batch = [[p]]\<rparr> True")
        case (Inl e)
        with on_device bgr show thesis
          by (intro predict_throws [of p e]) (simp_all add: defs)
      next
        case (Inr outs)
        with on_device bgr show thesis
          by (intro predict_returns [of p outs]) (simp_all add: defs)
      qed
    qed
  qed
qed

text \<open>
  \<open>classifyRBGA\<close> does not look at the shape of what \<open>predict\<close> returns before it
  indexes it: whether entry \<open>[0][0]\<close> exists is left to \<open>predict\<close>.
\<close>

lemma classifyRBGA_index_unchecked:
  assumes "inputFromHost_x env (preprocessor self) rbga (w * h * 16) = Inr ()"
    and "RBGAtoBGR_x env (preprocessor self) w h (modelWidth self) (modelHeight self) = Inr p"
    and "predict_x env \<lparr>location = DEVICE, batch = [[p]]\<rparr> True = Inr outs"
  shows "fst (snd (classifyRBGA env self rbga w h)) =
           (if batch outs = [] \<or> batch outs ! 0 = []
            then Inl IndexOutOfRange else Inr (batch outs ! 0 ! 0))"
  using assms by (auto simp add: classify_unfold)

subsection \<open>Cache or build\<close>



subsection \<open>The bindings\<close>

text \<open>
  The dimensions are stored in \<open>Dims\<close> as \<open>int\<close>s. With \<open>nbClasses = 2 ^ 32\<close> the
  constructor registers the output \<open>"prob"\<close> with the single dimension 0, which is not
  \<open>nbClasses\<close>: read as they are, "the dimension equals \<open>nbClasses\<close>" and "the dimensions are
  (\<open>nbChannels\<close>, \<open>height\<close>, \<open>width\<close>)" fail from \<open>2 ^ 31\<close> on.
\<close>

theorem bindings_dimension_counterexample:
  "filter is_binding (fst (DIGITSClassifier_new cached_runtime ''deploy.prototxt''
       ''snapshot.caffemodel'' ''digits.tensorcache'' 3 640 480 4294967296 1 (0, 0, 0) kFLOAT
       1073741824)) =
     [AddInputCall ''data'' \<lparr>nbDims = 3, d = [3, 480, 640]\<rparr> 4,
      AddOutputCall ''prob'' \<lparr>nbDims = 1, d = [0]\<rparr> 4] \<and>
   map sint [0 :: c_int] \<noteq> [uint (4294967296 :: size_t)]"
  by (simp add: cached_runtime_def new_unfold size_t_to_int_def)

text \<open>
  Claim C2, amended. The first call of the constructor registers the input \<open>"data"\<close> with
  three dimensions, the arguments \<open>nbChannels\<close>, \<open>height\<close>, \<open>width\<close> in this order, each
  converted to the \<open>int\<close> of \<open>Dims\<close>, and element size \<open>sizeof(float)\<close>; if it throws, the
  exception leaves the constructor. When it returns, the second call registers the output
  \<open>"prob"\<close> with the single dimension \<open>nbClasses\<close>, converted likewise, and the same element
  size; if it throws, the exception leaves the constructor after these two calls. No
  binding is registered after the two calls and no cache load, build or save is among
  them, so a construction that completes has registered exactly this one input and this
  one output, before anything was loaded or built. Whenever the four arguments are below
  \<open>2 ^ 31\<close>, the dimensions registered are, as numbers, (\<open>nbChannels\<close>, \<open>height\<close>, \<open>width\<close>)
  and \<open>nbClasses\<close>.
\<close>

theorem bindings_registered_first:
  "let (calls, result) =
         DIGITSClassifier_new env prototextPath modelPath cachePath nbChannels width height
           nbClasses maximumBatchSize imageNetMean dataType maxNetworkSize;
       chw = \<lparr>nbDims = 3,
              d = [size_t_to_int nbChannels, size_t_to_int height, size_t_to_int width]\<rparr>;
       classes = \<lparr>nbDims = 1, d = [size_t_to_int nbClasses]\<rparr>;
       input = AddInputCall INPUT_NAME chw sizeof_float;
       output = AddOutputCall OUTPUT_NAME classes sizeof_float
   in take 2 calls =
        (if addInput_x env INPUT_NAME chw sizeof_float = Inr () then [input, output] else [input]) \<and>
      filter is_binding (drop 2 calls) = [] \<and>
      filter is_engine_call (take 2 calls) = [] \<and>
      (\<forall>c. result = Inr c \<longrightarrow> filter is_binding calls = [input, output]) \<and>
      (\<forall>e. addInput_x env INPUT_NAME chw sizeof_float = Inl e \<longrightarrow>
         calls = [input] \<and> result = Inl (Thrown e)) \<and>
      (\<forall>e. addInput_x env INPUT_NAME chw sizeof_float = Inr () \<and>
           addOutput_x env OUTPUT_NAME classes sizeof_float = Inl e \<longrightarrow>
         calls = [input, output] \<and> result = Inl (Thrown e)) \<and>
      (nbChannels < 2 ^ 31 \<and> height < 2 ^ 31 \<and> width < 2 ^ 31 \<longrightarrow>
         map sint (d chw) = [uint nbChannels, uint height, uint width]) \<and>
      (nbClasses < 2 ^ 31 \<longrightarrow> map sint (d classes) = [uint nbClasses]) \<and>
      INPUT_NAME = ''data'' \<and> OUTPUT_NAME = ''prob'' \<and> sizeof_float = 4"
proof -
  let ?run = "DIGITSClassifier_new env prototextPath modelPath cachePath nbChannels width height
      nbClasses maximumBatchSize imageNetMean dataType maxNetworkSize"
  let ?chw = "\<lparr>nbDims = 3,
      d = [size_t_to_int nbChannels, size_t_to_int height, size_t_to_int width]\<rparr>"
  let ?classes = "\<lparr>nbDims = 1, d = [size_t_to_int nbClasses]\<rparr>"
  let ?input = "AddInputCall ''data'' ?chw 4"
  let ?output = "AddOutputCall ''prob'' ?classes 4"
  have order:
    "take 2 (fst ?run) =
       (if addInput_x env ''data'' ?chw 4 = Inr () then [?input, ?output] else [?input]) \<and>
     filter is_binding (drop 2 (fst ?run)) = [] \<and>
     filter is_engine_call (take 2 (fst ?run)) = [] \<and>
     (\<forall>c. snd ?run = Inr c \<longrightarrow> filter is_binding (fst ?run) = [?input, ?output])"
    by (rule new_cases [of env prototextPath modelPath cachePath nbChannels width height
          nbClasses maximumBatchSize imageNetMean dataType maxNetworkSize])
      simp_all
  have input_fails:
    "\<forall>e. addInput_x env ''data'' ?chw 4 = Inl e \<longrightarrow> ?run = ([?input], Inl (Thrown e))"
    by (simp add: new_unfold)
  have output_fails:
    "\<forall>e. addInput_x env ''data'' ?chw 4 = Inr () \<and> addOutput_x env ''prob'' ?classes 4 = Inl e \<longrightarrow>
       ?run = ([?input, ?output], Inl (Thrown e))"
    by (simp add: new_unfold)
  have in_range:
    "nbChannels < 2 ^ 31 \<and> height < 2 ^ 31 \<and> width < 2 ^ 31 \<longrightarrow>
       map sint (d ?chw) = [uint nbChannels, uint height, uint width]"
    by (simp add: size_t_to_int_exact)
  have classes_in_range: "nbClasses < 2 ^ 31 \<longrightarrow> map sint (d ?classes) = [uint nbClasses]"
    by (simp add: size_t_to_int_exact)
  obtain calls result where run: "?run = (calls, result)"
    by (cases ?run)
  from order input_fails output_fails in_range classes_in_range show ?thesis
    unfolding run Let_def INPUT_NAME_def OUTPUT_NAME_def sizeof_float_def
    by simp
qed

theorem bindings_registered_first_witness:
  "(3 :: size_t) < 2 ^ 31 \<and> (480 :: size_t) < 2 ^ 31 \<and> (640 :: size_t) < 2 ^ 31 \<and>
   (1000 :: size_t) < 2 ^ 31 \<and>
   filter is_binding (fst (DIGITSClassifier_new cached_runtime ''deploy.prototxt''
       ''snapshot.caffemodel'' ''digits.tensorcache'' 3 640 480 1000 1 (0, 0, 0) kFLOAT 1073741824)) =
     [AddInputCall ''data'' \<lparr>nbDims = 3, d = [3, 480, 640]\<rparr> 4,
      AddOutputCall ''prob'' \<lparr>nbDims = 1, d = [1000]\<rparr> 4] \<and>
   map sint [size_t_to_int 3, size_t_to_int 480, size_t_to_int 640] = [3, 480, 640] \<and>
   map sint [size_t_to_int 1000] = [1000]"
  using bindings_registered_first [of cached_runtime "''deploy.prototxt''" "''snapshot.caffemodel''"
      "''digits.tensorcache''" 3 640 480 1000 1 "(0, 0, 0)" kFLOAT 1073741824]
  by (simp add: cached_runtime_def new_unfold size_t_to_int_def)

subsection \<open>The build budget\<close>

text \<open>
  Claim C3. The calls of \<open>loadModel\<close> in a run of the constructor are: exactly one, when
  the cache load was attempted and threw \<open>ModelDeserializeException\<close>, and none otherwise.
  That one call carries the paths, \<open>maximumBatchSize\<close>, \<open>dataType\<close> and \<open>maxNetworkSize\<close>
  as the caller gave them to the constructor.
\<close>

theorem build_budget_passed_unchanged:
  "let (calls, result) =
         DIGITSClassifier_new env prototextPath modelPath cachePath nbChannels width height
           nbClasses maximumBatchSize imageNetMean dataType maxNetworkSize
   in filter is_LoadModel calls =
        (if LoadCacheCall cachePath 1 \<in> set calls \<and>
            loadCache_x env cachePath 1 = Inl ModelDeserializeException
         then [LoadModelCall prototextPath modelPath maximumBatchSize dataType maxNetworkSize]
         else [])"
  by (rule new_cases [of env prototextPath modelPath cachePath nbChannels width height
        nbClasses maximumBatchSize imageNetMean dataType maxNetworkSize])
    simp_all

theorem build_budget_passed_unchanged_witness:
  "LoadCacheCall ''digits.tensorcache'' 1 \<in> set (fst (DIGITSClassifier_new fresh_runtime
       ''deploy.prototxt'' ''snapshot.caffemodel'' ''digits.tensorcache'' 3 640 480 1000 4 (0, 0, 0)
       kHALF 536870912)) \<and>
   loadCache_x fresh_runtime ''digits.tensorcache'' 1 = Inl ModelDeserializeException \<and>
   filter is_LoadModel (fst (DIGITSClassifier_new fresh_runtime ''deploy.prototxt''
       ''snapshot.caffemodel'' ''digits.tensorcache'' 3 640 480 1000 4 (0, 0, 0) kHALF 536870912)) =
     [LoadModelCall ''deploy.prototxt'' ''snapshot.caffemodel'' 4 kHALF 536870912]"
  using build_budget_passed_unchanged [of fresh_runtime "''deploy.prototxt''"
      "''snapshot.caffemodel''" "''digits.tensorcache''" 3 640 480 1000 4 "(0, 0, 0)" kHALF 536870912]
  by (simp add: fresh_runtime_def cached_runtime_def new_unfold)

subsection \<open>A batch of one image\<close>



subsection \<open>Staging and conversion\<close>

text \<open>
  Claim C5. The first call of \<open>classifyRBGA\<close> hands the host image to the preprocessor
  with \<open>width * height * sizeof(float4)\<close> bytes (a product of \<open>size_t\<close>s, with
  \<open>sizeof(float4) = 16\<close>). When it returns, the second call converts from RBGA to BGR, from
  \<open>width\<close> by \<open>height\<close> to \<open>modelWidth\<close> by \<open>modelHeight\<close>. A call of \<open>predict\<close> comes
  only after these two, and its input is the pointer the conversion returned.
\<close>

theorem classify_stages_then_converts:
  "let (calls, result, self') = classifyRBGA env self rbga width height;
       stage = InputFromHostCall (preprocessor self) rbga (width * height * sizeof_float4);
       convert = RBGAtoBGRCall (preprocessor self) width height (modelWidth self) (modelHeight self)
   in prefix [stage] calls \<and>
      (inputFromHost_x env (preprocessor self) rbga (width * height * sizeof_float4) = Inr () \<longrightarrow>
         prefix [stage, convert] calls) \<and>
      (\<forall>inputs flag. PredictCall inputs flag \<in> set calls \<longrightarrow>
         (\<exists>p. RBGAtoBGR_x env (preprocessor self) width height (modelWidth self) (modelHeight self)
                = Inr p \<and>
              batch inputs = [[p]] \<and>
              calls = [stage, convert, PredictCall inputs flag])) \<and>
      sizeof_float4 = 16"
  by (rule classify_cases [of env self rbga width height]) (simp_all add: sizeof_float4_def)

theorem classify_stages_then_converts_witness:
  "inputFromHost_x cached_runtime 4096 65536 (1280 * 720 * sizeof_float4) = Inr () \<and>
   fst (classifyRBGA cached_runtime a_classifier 65536 1280 720) =
     [InputFromHostCall 4096 65536 14745600, RBGAtoBGRCall 4096 1280 720 224 224,
      PredictCall \<lparr>location = DEVICE, batch = [[8192]]\<rparr> True]"
  using classify_stages_then_converts
      [where env = cached_runtime and self = a_classifier and rbga = 65536
         and width = 1280 and height = 720]
  by (simp add: cached_runtime_def a_classifier_def classify_unfold)

subsection \<open>The model dimensions\<close>

text \<open>
  Claim C9. A construction that completes, through the cache or through a build, leaves
  \<open>modelWidth = width\<close>, \<open>modelHeight = height\<close> and \<open>modelDepth = nbChannels\<close>; and after a
  call of \<open>classifyRBGA\<close>, whatever its outcome, the three fields are what they were.
\<close>

theorem model_dimensions_kept:
  "(\<forall>c. snd (DIGITSClassifier_new env prototextPath modelPath cachePath nbChannels width height
             nbClasses maximumBatchSize imageNetMean dataType maxNetworkSize) = Inr c \<longrightarrow>
        modelWidth c = width \<and> modelHeight c = height \<and> modelDepth c = nbChannels) \<and>
   (let (calls, result, self') = classifyRBGA env' self rbga imageWidth imageHeight
    in modelWidth self' = modelWidth self \<and>
       modelHeight self' = modelHeight self \<and>
       modelDepth self' = modelDepth self)"
proof -
  have "\<forall>c. snd (DIGITSClassifier_new env prototextPath modelPath cachePath nbChannels width height
             nbClasses maximumBatchSize imageNetMean dataType maxNetworkSize) = Inr c \<longrightarrow>
        modelWidth c = width \<and> modelHeight c = height \<and> modelDepth c = nbChannels"
    by (rule new_cases [of env prototextPath modelPath cachePath nbChannels width height
          nbClasses maximumBatchSize imageNetMean dataType maxNetworkSize])
      simp_all
  moreover have "snd (snd (classifyRBGA env' self rbga imageWidth imageHeight)) = self"
    by (rule classify_cases [of env' self rbga imageWidth imageHeight]) simp_all
  ultimately show ?thesis
    by (simp add: case_prod_beta)
qed

theorem model_dimensions_kept_witness:
  "snd (DIGITSClassifier_new fresh_runtime ''deploy.prototxt''
       ''snapshot.caffemodel'' ''digits.tensorcache'' 3 640 480 1000 1 (0, 0, 0) kFLOAT 1073741824) =
     Inr \<lparr>modelWidth = 640, modelHeight = 480, modelDepth = 3, preprocessor = 4096\<rparr> \<and>
   snd (DIGITSClassifier_new cached_runtime ''deploy.prototxt''
       ''snapshot.caffemodel'' ''digits.tensorcache'' 3 640 480 1000 1 (0, 0, 0) kFLOAT 1073741824) =
     Inr \<lparr>modelWidth = 640, modelHeight = 480, modelDepth = 3, preprocessor = 4096\<rparr> \<and>
   modelWidth \<lparr>modelWidth = 640, modelHeight = 480, modelDepth = 3, preprocessor = 4096\<rparr> = 640 \<and>
   modelHeight \<lparr>modelWidth = 640, modelHeight = 480, modelDepth = 3, preprocessor = 4096\<rparr> = 480 \<and>
   modelDepth \<lparr>modelWidth = 640, modelHeight = 480, modelDepth = 3, preprocessor = 4096\<rparr> = 3"
  using model_dimensions_kept [of fresh_runtime "''deploy.prototxt''"
      "''snapshot.caffemodel''" "''digits.tensorcache''" 3 640 480 1000 1 "(0, 0, 0)" kFLOAT 1073741824]
  by (simp add: fresh_runtime_def cached_runtime_def new_unfold)

end
